theory Spec2Isabelle
  imports Main "HOL-Library.AList" "HOL-Library.Sublist"
begin

section \<open>The interface test matrix runner (run_matrix.py)\<close>

text \<open>
  The runner clones charm repositories into a workspace, builds a virtual environment in
  each, writes a pytest file next to the charm's fixture and runs it. Everything it does
  beyond computing values is an effect on the process's working directory, on the file
  system or on the outside world through a subprocess, so the functions below pass a
  world around explicitly and return Python's exceptions as values. Calls to
  \<open>logging\<close> write to the log only and are left out.
\<close>

subsection \<open>Exceptions\<close>

text \<open>
  \<open>SetupError\<close> and \<open>InterfaceTestError\<close> are the two classes of the module (the
  first carries its message); the others are the built-in exceptions the calls of the
  module can raise.
\<close>

datatype error =
    SetupError string
  | InterfaceTestError
  | CalledProcessError int
  | FileNotFoundError
  | NotADirectoryError
  | IsADirectoryError
  | KeyError string
  | ValueError

subsection \<open>Paths (pathlib)\<close>

text \<open>
  A pure POSIX path: whether it is anchored at the root, and its components. \<open>Path s\<close>
  parses a string as pathlib does: it splits at slashes and drops empty components and
  single dots (a leading double slash, which pathlib keeps apart, is read as a single
  one here). \<open>joinpath\<close> is the operator \<open>/\<close>: an absolute right operand replaces the
  left one.
\<close>

datatype path = PurePath (is_absolute: bool) (parts: "string list")

fun split_slash :: "string \<Rightarrow> string list" where
  "split_slash [] = [[]]"
| "split_slash (c # cs) =
     (if c = CHR ''/'' then [] # split_slash cs
      else (case split_slash cs of [] \<Rightarrow> [[c]] | p # ps \<Rightarrow> (c # p) # ps))"

definition Path :: "string \<Rightarrow> path" where
  "Path s = PurePath (take 1 s = ''/'')
                     (filter (\<lambda>p. p \<noteq> [] \<and> p \<noteq> ''.'') (split_slash s))"

definition joinpath :: "path \<Rightarrow> path \<Rightarrow> path" where
  "joinpath p q =
     (if is_absolute q then q else PurePath (is_absolute p) (parts p @ parts q))"

definition parent :: "path \<Rightarrow> path" where
  "parent p = PurePath (is_absolute p) (butlast (parts p))"

fun join_slash :: "string list \<Rightarrow> string" where
  "join_slash [] = []"
| "join_slash [p] = p"
| "join_slash (p # q # ps) = p @ ''/'' @ join_slash (q # ps)"

definition str_path :: "path \<Rightarrow> string" where
  "str_path p =
     (if is_absolute p then ''/'' @ join_slash (parts p)
      else if parts p = [] then ''.'' else join_slash (parts p))"

subsection \<open>Participants and fixtures\<close>

text \<open>
  \<open>_CharmTestConfig\<close> is declared by the collector package; the runner reads its
  attributes \<open>name\<close>, \<open>url\<close>, \<open>branch\<close> and \<open>test_setup\<close>. \<open>test_setup\<close> is None or a
  mapping that the runner subscripts with the keys \<open>location\<close> and \<open>identifier\<close>; an
  entry is None or a string. The mapping is kept as an association list, so that a
  missing key is a \<open>KeyError\<close> as in Python.
\<close>

record charm_config =
  name :: string
  url :: string
  test_setup :: "(string \<times> string option) list option"
  branch :: "string option"

text \<open>Python's truth value of an optional string: None and the empty string are false.\<close>

definition truthy :: "string option \<Rightarrow> bool" where
  "truthy v = (case v of None \<Rightarrow> False | Some s \<Rightarrow> s \<noteq> [])"

text \<open>\<open>d[k]\<close> on a mapping.\<close>

definition subscript :: "(string \<times> 'v) list \<Rightarrow> string \<Rightarrow> error + 'v" where
  "subscript d k = (case map_of d k of None \<Rightarrow> Inl (KeyError k) | Some v \<Rightarrow> Inr v)"

definition FIXTURE_PATH :: string where
  "FIXTURE_PATH = ''tests/interface/conftest.py''"

definition FIXTURE_IDENTIFIER :: string where
  "FIXTURE_IDENTIFIER = ''interface_tester''"

text \<open>The named tuple \<open>FixtureSpec(path, id)\<close>.\<close>

datatype FixtureSpec = FixtureSpec (path_of: path) (id_of: string)

text \<open>
  \<open>_get_fixture\<close>: the defaults, replaced one by one where \<open>test_setup\<close> is a non-empty
  mapping and the entry is true. The two subscripts are evaluated in the source's order,
  so a mapping without the key \<open>location\<close> raises before \<open>identifier\<close> is read.
\<close>

definition get_fixture :: "charm_config \<Rightarrow> path \<Rightarrow> error + FixtureSpec" where
  "get_fixture charm_config charm_path =
     (let fixture_path = joinpath charm_path (Path FIXTURE_PATH);
          fixture_id = FIXTURE_IDENTIFIER
      in case test_setup charm_config of
           None \<Rightarrow> Inr (FixtureSpec fixture_path fixture_id)
         | Some d \<Rightarrow>
             if d = [] then Inr (FixtureSpec fixture_path fixture_id)
             else
               (case subscript d ''location'' of
                  Inl e \<Rightarrow> Inl e
                | Inr loc \<Rightarrow>
                    (let fixture_path =
                           (case loc of
                              None \<Rightarrow> fixture_path
                            | Some l \<Rightarrow>
                                if truthy loc then joinpath charm_path (Path l)
                                else fixture_path)
                     in case subscript d ''identifier'' of
                          Inl e \<Rightarrow> Inl e
                        | Inr ident \<Rightarrow>
                            (let fixture_id =
                                   (case ident of
                                      None \<Rightarrow> fixture_id
                                    | Some i \<Rightarrow> if truthy ident then i else fixture_id)
                             in Inr (FixtureSpec fixture_path fixture_id)))))"

subsection \<open>The world: working directory, file system, subprocesses\<close>

text \<open>
  The file system maps an absolute path (its components) to a node; the working
  directory is an absolute path; \<open>ext\<close> is whatever lies outside the process and the
  file system (remote repositories, the package index), which a subprocess may read and
  change. The trace records the subprocesses started and the trees removed, in order.
\<close>

datatype node = File string | Dir

text \<open>
  The five places where the module starts a subprocess; \<open>GitClone\<close>, \<open>MkVenv\<close> and
  \<open>Pytest\<close> carry the command line the source formats.
\<close>

datatype cmd =
    GitClone string
  | MkVenv string
  | PipInstallTester
  | PipInstallRequirements
  | Pytest string

datatype event = Exec cmd | Rmtree "string list"

text \<open>
  How a child process ended. \<open>Popen.returncode\<close> is the exit status, or the negated
  signal number when a signal killed the child.
\<close>

datatype proc_status = Exited nat | Signaled nat

definition returncode :: "proc_status \<Rightarrow> int" where
  "returncode st = (case st of Exited n \<Rightarrow> int n | Signaled n \<Rightarrow> - int n)"

record 'x world =
  cwd :: "string list"
  fs :: "string list \<Rightarrow> node option"
  ext :: 'x
  trace :: "event list"

subsection \<open>The registry and the result tree\<close>

text \<open>
  The collector's output: interface name, then version label, then role, then the tests
  and the charms of the role. Python dictionaries keep insertion order, so each mapping
  is an association list; the tests are opaque to the runner.
\<close>

record role_spec =
  tests :: "string list"
  charms :: "charm_config list"

type_synonym tests_per_role = "(string \<times> role_spec) list"
type_synonym tests_per_version = "(string \<times> tests_per_role) list"
type_synonym collected = "(string \<times> tests_per_version) list"


text \<open>
  What the runner takes from outside: the environment variable \<open>MKVENV_CMD\<close>, what a
  shell command does (how it ends, and the file system and outside world it leaves; a
  child cannot change the parent's working directory), and the collector.
\<close>

record 'x env =
  MKVENV_CMD :: string
  run_shell :: "cmd \<Rightarrow> string list \<Rightarrow> (string list \<Rightarrow> node option) \<Rightarrow> 'x
                  \<Rightarrow> proc_status \<times> (string list \<Rightarrow> node option) \<times> 'x"
  collect_tests :: "path \<Rightarrow> string \<Rightarrow> string list \<Rightarrow> (string list \<Rightarrow> node option) \<Rightarrow> 'x
                      \<Rightarrow> error + collected"

subsection \<open>Operating system calls\<close>

text \<open>
  A path is resolved as the operating system does it: from the root, or from the working
  directory when the path is relative, one component at a time. Every directory stepped
  from must be a directory, and \<open>..\<close> steps to the parent (the root is its own parent).
  The result is the location the path names, whether or not anything is there.
\<close>

fun walk :: "(string list \<Rightarrow> node option) \<Rightarrow> string list \<Rightarrow> string list \<Rightarrow> error + string list"
  where
  "walk f at [] = Inr at"
| "walk f at (c # cs) =
     (case f at of
        None \<Rightarrow> Inl FileNotFoundError
      | Some (File _) \<Rightarrow> Inl NotADirectoryError
      | Some Dir \<Rightarrow> walk f (if c = ''..'' then butlast at else at @ [c]) cs)"

definition resolve :: "'x world \<Rightarrow> path \<Rightarrow> error + string list" where
  "resolve w p = walk (fs w) (if is_absolute p then [] else cwd w) (parts p)"

definition node_at :: "'x world \<Rightarrow> path \<Rightarrow> node option" where
  "node_at w p = (case resolve w p of Inl _ \<Rightarrow> None | Inr a \<Rightarrow> fs w a)"

text \<open>
  \<open>os.getcwd\<close> raises \<open>FileNotFoundError\<close> when the working directory has been
  removed.
\<close>

definition os_getcwd :: "'x world \<Rightarrow> error + path" where
  "os_getcwd w =
     (if fs w (cwd w) = Some Dir then Inr (PurePath True (cwd w)) else Inl FileNotFoundError)"

definition os_chdir :: "path \<Rightarrow> 'x world \<Rightarrow> (error + unit) \<times> 'x world" where
  "os_chdir p w =
     (case resolve w p of
        Inl e \<Rightarrow> (Inl e, w)
      | Inr q \<Rightarrow>
          (case fs w q of
             None \<Rightarrow> (Inl FileNotFoundError, w)
           | Some (File _) \<Rightarrow> (Inl NotADirectoryError, w)
           | Some Dir \<Rightarrow> (Inr (), w\<lparr>cwd := q\<rparr>)))"

definition path_exists :: "'x world \<Rightarrow> path \<Rightarrow> bool" where
  "path_exists w p = (node_at w p \<noteq> None)"

definition is_file :: "'x world \<Rightarrow> path \<Rightarrow> bool" where
  "is_file w p = (case node_at w p of Some (File _) \<Rightarrow> True | _ \<Rightarrow> False)"

definition is_dir :: "'x world \<Rightarrow> path \<Rightarrow> bool" where
  "is_dir w p = (node_at w p = Some Dir)"


text \<open>
  \<open>open(p, "w")\<close> followed by one \<open>write\<close>: the directory of the file must be
  there, and the file is created or truncated.
\<close>

definition open_write :: "path \<Rightarrow> string \<Rightarrow> 'x world \<Rightarrow> (error + unit) \<times> 'x world" where
  "open_write p content w =
     (case walk (fs w) (if is_absolute p then [] else cwd w) (butlast (parts p)) of
        Inl e \<Rightarrow> (Inl e, w)
      | Inr d \<Rightarrow>
          (case fs w d of
             None \<Rightarrow> (Inl FileNotFoundError, w)
           | Some (File _) \<Rightarrow> (Inl NotADirectoryError, w)
           | Some Dir \<Rightarrow>
               if parts p = [] \<or> last (parts p) = ''..'' then (Inl IsADirectoryError, w)
               else
                 (case fs w (d @ [last (parts p)]) of
                    Some Dir \<Rightarrow> (Inl IsADirectoryError, w)
                  | _ \<Rightarrow>
                      (Inr (), w\<lparr>fs := (fs w)(d @ [last (parts p)] \<mapsto> File content)\<rparr>))))"

text \<open>
  \<open>subprocess.call\<close> returns the return code; \<open>subprocess.check_call\<close> raises
  \<open>CalledProcessError\<close> when it is not zero.
\<close>

definition subprocess_call :: "'x env \<Rightarrow> cmd \<Rightarrow> 'x world \<Rightarrow> int \<times> 'x world" where
  "subprocess_call env c w =
     (case run_shell env c (cwd w) (fs w) (ext w) of
        (st, fs', ext') \<Rightarrow>
          (returncode st, w\<lparr>fs := fs', ext := ext', trace := trace w @ [Exec c]\<rparr>))"

definition check_call :: "'x env \<Rightarrow> cmd \<Rightarrow> 'x world \<Rightarrow> (error + unit) \<times> 'x world" where
  "check_call env c w =
     (case subprocess_call env c w of
        (retcode, w') \<Rightarrow>
          if retcode \<noteq> 0 then (Inl (CalledProcessError retcode), w') else (Inr (), w'))"

subsection \<open>Built-in conversions\<close>

text \<open>\<open>str\<close> of an integer, as \<open>str.format\<close> renders the version.\<close>

function str_nat :: "nat \<Rightarrow> string" where
  "str_nat n =
     (if n < 10 then [''0123456789'' ! n]
      else str_nat (n div 10) @ [''0123456789'' ! (n mod 10)])"
  by pat_completeness auto
termination
  by (relation "measure id") auto

definition str_int :: "int \<Rightarrow> string" where
  "str_int i = (if i < 0 then ''-'' @ str_nat (nat (- i)) else str_nat (nat i))"









subsection \<open>Cloning and the virtual environment\<close>

text \<open>
  \<open>_clone_charm_repo\<close>: the branch option is added to the command line when the
  branch is true; the clone fails, with a \<open>SetupError\<close> that names the charm, when the
  return code is positive.
\<close>

definition git_clone_command :: "charm_config \<Rightarrow> path \<Rightarrow> string" where
  "git_clone_command charm_config charm_path =
     (let branch_option =
            (case branch charm_config of
               None \<Rightarrow> []
             | Some b \<Rightarrow> if truthy (branch charm_config) then ''--branch '' @ b else [])
      in ''git clone --quiet --depth 1 '' @ branch_option @ '' '' @ url charm_config
           @ '' '' @ str_path charm_path)"

definition clone_charm_repo ::
  "'x env \<Rightarrow> charm_config \<Rightarrow> path \<Rightarrow> 'x world \<Rightarrow> (error + unit) \<times> 'x world" where
  "clone_charm_repo env charm_config charm_path w =
     (case subprocess_call env (GitClone (git_clone_command charm_config charm_path)) w of
        (retcode, w') \<Rightarrow>
          if retcode > 0 then
            (Inl (SetupError (''Failed to clone repo for '' @ name charm_config
                                @ ''; check the charms.yaml config.'')), w')
          else (Inr (), w'))"

text \<open>
  The body of the \<open>try\<close> in \<open>_setup_venv\<close>: three checked calls in a row, the
  first with the command line made from \<open>MKVENV_CMD\<close>.
\<close>

definition mkvenv_command :: "'x env \<Rightarrow> string" where
  "mkvenv_command env = MKVENV_CMD env @ '' ./.interface-venv''"

definition setup_venv_calls :: "'x env \<Rightarrow> 'x world \<Rightarrow> (error + unit) \<times> 'x world" where
  "setup_venv_calls env w =
     (case check_call env (MkVenv (mkvenv_command env)) w of
        (Inl e, w1) \<Rightarrow> (Inl e, w1)
      | (Inr _, w1) \<Rightarrow>
          (case check_call env PipInstallTester w1 of
             (Inl e, w2) \<Rightarrow> (Inl e, w2)
           | (Inr _, w2) \<Rightarrow> check_call env PipInstallRequirements w2))"

text \<open>
  \<open>_setup_venv\<close>: remember the working directory, enter the charm, run the calls,
  turn a \<open>CalledProcessError\<close> into a \<open>SetupError\<close>, and go back to the remembered
  directory. The last \<open>os.chdir\<close> stands after the \<open>try\<close> statement, not in a
  \<open>finally\<close> clause: it runs only when nothing was raised.
\<close>

definition setup_venv :: "'x env \<Rightarrow> path \<Rightarrow> 'x world \<Rightarrow> (error + unit) \<times> 'x world" where
  "setup_venv env charm_path w =
     (case os_getcwd w of
        Inl e \<Rightarrow> (Inl e, w)
      | Inr original_wd \<Rightarrow>
          (case os_chdir charm_path w of
             (Inl e, w1) \<Rightarrow> (Inl e, w1)
           | (Inr _, w1) \<Rightarrow>
               (case setup_venv_calls env w1 of
                  (Inl e, w2) \<Rightarrow>
                    (case e of
                       CalledProcessError _ \<Rightarrow> (Inl (SetupError ''venv setup failed''), w2)
                     | _ \<Rightarrow> (Inl e, w2))
                | (Inr _, w2) \<Rightarrow> os_chdir original_wd w2)))"

text \<open>\<open>_run_test_with_pytest\<close> has the same shape around one checked call.\<close>

definition pytest_command :: "path \<Rightarrow> string" where
  "pytest_command test_path =
     ''PYTHONPATH=src:lib .interface-venv/bin/python -m pytest '' @ str_path test_path"

definition run_test_with_pytest ::
  "'x env \<Rightarrow> path \<Rightarrow> path \<Rightarrow> 'x world \<Rightarrow> (error + unit) \<times> 'x world" where
  "run_test_with_pytest env root test_path w =
     (case os_getcwd w of
        Inl e \<Rightarrow> (Inl e, w)
      | Inr original_wd \<Rightarrow>
          (case os_chdir root w of
             (Inl e, w1) \<Rightarrow> (Inl e, w1)
           | (Inr _, w1) \<Rightarrow>
               (case check_call env (Pytest (pytest_command test_path)) w1 of
                  (Inl e, w2) \<Rightarrow>
                    (case e of
                       CalledProcessError _ \<Rightarrow> (Inl InterfaceTestError, w2)
                     | _ \<Rightarrow> (Inl e, w2))
                | (Inr _, w2) \<Rightarrow> os_chdir original_wd w2)))"

subsection \<open>The generated test\<close>

definition TEST_CONTENT :: "string \<Rightarrow> string \<Rightarrow> string \<Rightarrow> string" where
  "TEST_CONTENT interface fixture_id version =
     [CHR 0x0A] @ ''# file generated by run_matrix.py'' @ [CHR 0x0A]
     @ ''from interface_tester import InterfaceTester'' @ [CHR 0x0A]
     @ ''def test_'' @ interface @ ''_interface('' @ fixture_id @ '': InterfaceTester):''
     @ [CHR 0x0A]
     @ ''    '' @ fixture_id @ ''.configure('' @ [CHR 0x0A]
     @ ''        interface_name='' @ [CHR 0x22] @ interface @ [CHR 0x22] @ '','' @ [CHR 0x0A]
     @ ''        interface_version='' @ version @ '','' @ [CHR 0x0A]
     @ ''    )'' @ [CHR 0x0A]
     @ ''    '' @ fixture_id @ ''.run()'' @ [CHR 0x0A]"

definition generate_test ::
  "string \<Rightarrow> path \<Rightarrow> string \<Rightarrow> int \<Rightarrow> 'x world \<Rightarrow> (error + path) \<times> 'x world" where
  "generate_test interface test_path fixture_id version w =
     (let test_content = TEST_CONTENT interface fixture_id (str_int version);
          test_filename = ''interface-test-'' @ interface @ ''.py''
      in case open_write (joinpath test_path (Path test_filename)) test_content w of
           (Inl e, w') \<Rightarrow> (Inl e, w')
         | (Inr _, w') \<Rightarrow> (Inr (joinpath test_path (Path test_filename)), w'))"

subsection \<open>Provisioning and the workspace\<close>

definition default_root :: path where
  "default_root = Path ''/tmp/charm-relation-interfaces-tests/''"

text \<open>
  \<open>_prepare_repo\<close>: clone and build only when the charm's directory is not there yet;
  then resolve the fixture, require its file, and write the test beside it.
  \<open>clone_and_setup\<close> is the conditional at its head.
\<close>

definition clone_and_setup ::
  "'x env \<Rightarrow> charm_config \<Rightarrow> path \<Rightarrow> 'x world \<Rightarrow> (error + unit) \<times> 'x world" where
  "clone_and_setup env charm_config charm_path w =
     (if \<not> path_exists w charm_path then
        (case clone_charm_repo env charm_config charm_path w of
           (Inl e, w1) \<Rightarrow> (Inl e, w1)
         | (Inr _, w1) \<Rightarrow> setup_venv env charm_path w1)
      else (Inr (), w))"

definition prepare_repo ::
  "'x env \<Rightarrow> charm_config \<Rightarrow> string \<Rightarrow> int \<Rightarrow> path \<Rightarrow> 'x world
     \<Rightarrow> (error + path \<times> path) \<times> 'x world" where
  "prepare_repo env charm_config interface version root w =
     (let charm_path = joinpath root (Path (name charm_config))
      in case clone_and_setup env charm_config charm_path w of
           (Inl e, w1) \<Rightarrow> (Inl e, w1)
         | (Inr _, w1) \<Rightarrow>
             (case get_fixture charm_config charm_path of
                Inl e \<Rightarrow>
                  (case e of
                     FileNotFoundError \<Rightarrow>
                       (Inl (SetupError (''unable to get fixture spec from ''
                                           @ str_path charm_path)), w1)
                   | _ \<Rightarrow> (Inl e, w1))
              | Inr fixture_spec \<Rightarrow>
                  if \<not> is_file w1 (path_of fixture_spec) then
                    (Inl (SetupError (''fixture missing for charm '' @ name charm_config)), w1)
                  else
                    (case generate_test interface (parent (path_of fixture_spec))
                            (id_of fixture_spec) version w1 of
                       (Inl e, w2) \<Rightarrow> (Inl e, w2)
                     | (Inr test_path, w2) \<Rightarrow> (Inr (charm_path, test_path), w2))))"


subsection \<open>The traversal\<close>

text \<open>
  \<open>_test_charm\<close> is where the two exceptions of the module are caught: a
  \<open>SetupError\<close> from provisioning and an \<open>InterfaceTestError\<close> from the test run
  become \<open>False\<close>; any other exception goes on to the caller.
\<close>

definition test_charm ::
  "'x env \<Rightarrow> charm_config \<Rightarrow> string \<Rightarrow> int \<Rightarrow> string \<Rightarrow> 'x world \<Rightarrow> (error + bool) \<times> 'x world"
  where
  "test_charm env charm_config interface version role w =
     (case prepare_repo env charm_config interface version default_root w of
        (Inl e, w1) \<Rightarrow>
          (case e of SetupError _ \<Rightarrow> (Inr False, w1) | _ \<Rightarrow> (Inl e, w1))
      | (Inr (charm_path, test_path), w1) \<Rightarrow>
          (case run_test_with_pytest env charm_path test_path w1 of
             (Inl e, w2) \<Rightarrow>
               (case e of InterfaceTestError \<Rightarrow> (Inr False, w2) | _ \<Rightarrow> (Inl e, w2))
           | (Inr _, w2) \<Rightarrow> (Inr True, w2)))"









subsection \<open>Reading the trace\<close>

text \<open>
  A clone is a started \<open>git clone\<close>; an environment build is a started virtual
  environment command, the first call of \<open>_setup_venv\<close>.
\<close>

definition is_clone :: "event \<Rightarrow> bool" where
  "is_clone e = (case e of Exec (GitClone _) \<Rightarrow> True | _ \<Rightarrow> False)"

definition is_build :: "event \<Rightarrow> bool" where
  "is_build e = (case e of Exec (MkVenv _) \<Rightarrow> True | _ \<Rightarrow> False)"

definition is_rmtree :: "event \<Rightarrow> bool" where
  "is_rmtree e = (case e of Rmtree _ \<Rightarrow> True | _ \<Rightarrow> False)"

text \<open>Two worlds that differ at most in what has been recorded so far.\<close>

definition same_state :: "'x world \<Rightarrow> 'x world \<Rightarrow> bool" where
  "same_state w w' = (cwd w = cwd w' \<and> fs w = fs w' \<and> ext w = ext w')"

subsection \<open>Sample worlds\<close>

text \<open>
  A small world to run the functions in: a root directory with \<open>/tmp\<close> and a
  directory \<open>/work\<close> the process starts in. The sample shell takes how the clone, the
  virtual environment command and pytest end; a clone that exits with status 0 leaves
  the tree of the charm \<open>traefik-k8s\<close> with its fixture in the workspace, and nothing
  else changes the file system. The sample collector returns a given registry.
\<close>

definition sample_fs :: "string list \<Rightarrow> node option" where
  "sample_fs = [[] \<mapsto> Dir, [''tmp''] \<mapsto> Dir, [''work''] \<mapsto> Dir]"

definition cloned_fs :: "(string list \<Rightarrow> node option) \<Rightarrow> string list \<Rightarrow> node option" where
  "cloned_fs f =
     f([''tmp'', ''charm-relation-interfaces-tests''] \<mapsto> Dir,
       [''tmp'', ''charm-relation-interfaces-tests'', ''traefik-k8s''] \<mapsto> Dir,
       [''tmp'', ''charm-relation-interfaces-tests'', ''traefik-k8s'', ''tests''] \<mapsto> Dir,
       [''tmp'', ''charm-relation-interfaces-tests'', ''traefik-k8s'', ''tests'', ''interface'']
         \<mapsto> Dir,
       [''tmp'', ''charm-relation-interfaces-tests'', ''traefik-k8s'', ''tests'', ''interface'',
        ''conftest.py''] \<mapsto> File ''# fixture'')"

definition sample_world :: "unit world" where
  "sample_world = \<lparr>cwd = [''work''], fs = sample_fs, ext = (), trace = []\<rparr>"

definition sample_env ::
  "collected \<Rightarrow> proc_status \<Rightarrow> proc_status \<Rightarrow> proc_status \<Rightarrow> unit env" where
  "sample_env registry clone_status venv_status pytest_status =
     \<lparr>MKVENV_CMD = ''python -m virtualenv'',
      run_shell = (\<lambda>c cw f x.
        case c of
          GitClone _ \<Rightarrow> (clone_status, if clone_status = Exited 0 then cloned_fs f else f, x)
        | MkVenv _ \<Rightarrow> (venv_status, f, x)
        | PipInstallTester \<Rightarrow> (Exited 0, f, x)
        | PipInstallRequirements \<Rightarrow> (Exited 0, f, x)
        | Pytest _ \<Rightarrow> (pytest_status, f, x)),
      collect_tests = (\<lambda>p include cw f x. Inr registry)\<rparr>"

definition traefik :: charm_config where
  "traefik = \<lparr>name = ''traefik-k8s'', url = ''https://github.com/canonical/traefik-k8s-operator'',
              test_setup = None, branch = None\<rparr>"

definition traefik_path :: path where
  "traefik_path = Path ''/tmp/charm-relation-interfaces-tests/traefik-k8s''"



text \<open>
  A shell whose clone is killed by signal 9 after it has written the charm's tree; every
  other command exits with status 0.
\<close>

definition killed_clone_env :: "unit env" where
  "killed_clone_env =
     \<lparr>MKVENV_CMD = ''python -m virtualenv'',
      run_shell = (\<lambda>c cw f x.
        case c of
          GitClone _ \<Rightarrow> (Signaled 9, cloned_fs f, x)
        | MkVenv _ \<Rightarrow> (Exited 0, f, x)
        | PipInstallTester \<Rightarrow> (Exited 0, f, x)
        | PipInstallRequirements \<Rightarrow> (Exited 0, f, x)
        | Pytest _ \<Rightarrow> (Exited 0, f, x)),
      collect_tests = (\<lambda>p include cw f x. Inr [])\<rparr>"

text \<open>Whether an absolute path, given by its components, names something in a file system.\<close>

definition reachable :: "(string list \<Rightarrow> node option) \<Rightarrow> string list \<Rightarrow> bool" where
  "reachable f ps = (case walk f [] ps of Inl _ \<Rightarrow> False | Inr a \<Rightarrow> f a \<noteq> None)"

section \<open>Properties\<close>

subsection \<open>What the calls do to the working directory and the trace\<close>

text \<open>
  A subprocess leaves the working directory of the runner alone and adds one entry to the
  trace; \<open>os.chdir\<close> either fails and changes nothing or moves to the resolved path.
\<close>

lemma subprocess_call_world:
  "cwd (snd (subprocess_call env c w)) = cwd w"
  "trace (snd (subprocess_call env c w)) = trace w @ [Exec c]"
  by (simp_all add: subprocess_call_def split: prod.splits)

lemma check_call_world:
  "cwd (snd (check_call env c w)) = cwd w"
  "trace (snd (check_call env c w)) = trace w @ [Exec c]"
  using subprocess_call_world [of env c w]
  by (auto simp: check_call_def split: prod.splits)

lemma check_call_result:
  "check_call env c w = (r, w') \<Longrightarrow> cwd w' = cwd w \<and> trace w' = trace w @ [Exec c]"
  using check_call_world [of env c w] by simp

lemma check_call_error:
  "check_call env c w = (Inl e, w') \<Longrightarrow> \<exists>rc. e = CalledProcessError rc \<and> rc \<noteq> 0"
  by (auto simp: check_call_def split: prod.splits if_splits)

lemma setup_venv_calls_cwd: "cwd (snd (setup_venv_calls env w)) = cwd w"
  by (auto simp: setup_venv_calls_def check_call_world split: prod.splits sum.splits
           dest!: check_call_result)

lemma setup_venv_calls_error:
  "setup_venv_calls env w = (Inl e, w') \<Longrightarrow> \<exists>rc. e = CalledProcessError rc"
  by (auto simp: setup_venv_calls_def split: prod.splits sum.splits dest: check_call_error)

lemma walk_error:
  "walk f at ps = Inl e \<Longrightarrow> e = FileNotFoundError \<or> e = NotADirectoryError"
  by (induction ps arbitrary: at) (auto split: option.splits node.splits)

lemma walk_plain:
  "walk f at ps = Inr a \<Longrightarrow> ''..'' \<notin> set ps \<Longrightarrow> a = at @ ps"
proof (induction ps arbitrary: at)
  case Nil
  then show ?case by simp
next
  case (Cons c cs)
  from Cons.prems have "walk f (at @ [c]) cs = Inr a"
    by (auto split: option.splits node.splits)
  from Cons.IH [OF this] Cons.prems(2) show ?case by simp
qed

lemma os_chdir_Inr:
  "os_chdir p w = (Inr u, w') \<Longrightarrow>
     \<exists>q. resolve w p = Inr q \<and> fs w q = Some Dir \<and> w' = w\<lparr>cwd := q\<rparr>"
  by (auto simp: os_chdir_def split: sum.splits option.splits node.splits)

lemma os_chdir_error:
  "os_chdir p w = (Inl e, w') \<Longrightarrow> w' = w \<and> (e = FileNotFoundError \<or> e = NotADirectoryError)"
  by (auto simp: os_chdir_def resolve_def split: sum.splits option.splits node.splits
           dest: walk_error)

lemma os_chdir_result:
  "os_chdir p w = (r, w') \<Longrightarrow> trace w' = trace w \<and> fs w' = fs w \<and> ext w' = ext w"
  by (auto simp: os_chdir_def split: sum.splits option.splits node.splits)

lemma os_chdir_back:
  assumes "os_chdir (PurePath True d) w = (Inr u, w')" and "''..'' \<notin> set d"
  shows "cwd w' = d"
  using assms by (auto simp: resolve_def dest!: os_chdir_Inr walk_plain)

lemma setup_venv_success_restores_cwd:
  assumes "setup_venv env p w = (Inr u, w')" and "''..'' \<notin> set (cwd w)"
  shows "cwd w' = cwd w"
  using assms
  by (auto simp: setup_venv_def os_getcwd_def
           split: prod.splits sum.splits error.splits if_splits dest: os_chdir_back)

lemma setup_venv_SetupError_leaves_cwd:
  assumes "setup_venv env p w = (Inl (SetupError m), w')"
  shows "resolve w p = Inr (cwd w')"
proof -
  from assms obtain w1 w2 e where
    a: "os_chdir p w = (Inr (), w1)" "setup_venv_calls env w1 = (Inl e, w2)" "w' = w2"
    by (auto simp: setup_venv_def os_getcwd_def
             split: prod.splits sum.splits error.splits if_splits
             dest: os_chdir_error)
  from a(2) setup_venv_calls_cwd [of env w1] have "cwd w2 = cwd w1" by simp
  with a(1,3) show ?thesis by (auto dest!: os_chdir_Inr)
qed

lemma run_test_success_restores_cwd:
  assumes "run_test_with_pytest env p t w = (Inr u, w')" and "''..'' \<notin> set (cwd w)"
  shows "cwd w' = cwd w"
  using assms
  by (auto simp: run_test_with_pytest_def os_getcwd_def
           split: prod.splits sum.splits error.splits if_splits dest: os_chdir_back)

lemma run_test_InterfaceTestError_leaves_cwd:
  assumes "run_test_with_pytest env p t w = (Inl InterfaceTestError, w')"
  shows "resolve w p = Inr (cwd w')"
proof -
  from assms obtain w1 w2 e where
    a: "os_chdir p w = (Inr (), w1)"
       "check_call env (Pytest (pytest_command t)) w1 = (Inl e, w2)" "w' = w2"
    by (auto simp: run_test_with_pytest_def os_getcwd_def
             split: prod.splits sum.splits error.splits if_splits
             dest: os_chdir_error)
  from check_call_result [OF a(2)] have "cwd w2 = cwd w1" by simp
  with a(1,3) show ?thesis by (auto dest!: os_chdir_Inr)
qed

subsection \<open>Running in the sample world\<close>

text \<open>The definitions a run in the sample world unfolds.\<close>

lemmas sample_eval =
  sample_env_def sample_world_def sample_fs_def cloned_fs_def traefik_def traefik_path_def
  default_root_def prepare_repo_def clone_and_setup_def clone_charm_repo_def
  git_clone_command_def mkvenv_command_def pytest_command_def
  setup_venv_def setup_venv_calls_def run_test_with_pytest_def check_call_def
  subprocess_call_def returncode_def os_getcwd_def os_chdir_def path_exists_def is_file_def
  is_dir_def node_at_def resolve_def Path_def joinpath_def parent_def str_path_def
  get_fixture_def FIXTURE_PATH_def FIXTURE_IDENTIFIER_def generate_test_def open_write_def
  truthy_def is_clone_def is_build_def Let_def


subsection \<open>The fixture resolver\<close>

text \<open>
  Where \<open>test_setup\<close> is None or empty, or carries both entries, the two overrides are
  applied independently of each other; an override is absent there when its entry is None
  or the empty string.
\<close>

lemma get_fixture_override_precedence:
  "(test_setup c = Some d \<and> map_of d ''location'' = Some (Some l) \<and> l \<noteq> []
      \<and> map_of d ''identifier'' = Some ident \<and> (ident = None \<or> ident = Some [])
     \<longrightarrow> get_fixture c p = Inr (FixtureSpec (joinpath p (Path l)) ''interface_tester''))
   \<and> (test_setup c = Some d \<and> map_of d ''location'' = Some loc \<and> (loc = None \<or> loc = Some [])
      \<and> map_of d ''identifier'' = Some (Some i) \<and> i \<noteq> []
     \<longrightarrow> get_fixture c p =
           Inr (FixtureSpec (joinpath p (Path ''tests/interface/conftest.py'')) i))
   \<and> (test_setup c = Some d \<and> map_of d ''location'' = Some (Some l) \<and> l \<noteq> []
      \<and> map_of d ''identifier'' = Some (Some i) \<and> i \<noteq> []
     \<longrightarrow> get_fixture c p = Inr (FixtureSpec (joinpath p (Path l)) i))
   \<and> (test_setup c = None \<or> test_setup c = Some []
      \<or> (test_setup c = Some d \<and> map_of d ''location'' = Some loc \<and> (loc = None \<or> loc = Some [])
          \<and> map_of d ''identifier'' = Some ident \<and> (ident = None \<or> ident = Some []))
     \<longrightarrow> get_fixture c p =
           Inr (FixtureSpec (joinpath p (Path ''tests/interface/conftest.py''))
                  ''interface_tester''))"
  by (auto simp: get_fixture_def subscript_def truthy_def FIXTURE_PATH_def
                 FIXTURE_IDENTIFIER_def Let_def)

lemma get_fixture_override_precedence_sample:
  "get_fixture \<lparr>name = ''traefik-k8s'', url = ''https://example.org/traefik'',
                 test_setup = Some [(''location'', Some ''tests/conftest.py''), (''identifier'', None)],
                 branch = None\<rparr> (Path ''/ws/traefik-k8s'')
     = Inr (FixtureSpec (Path ''/ws/traefik-k8s/tests/conftest.py'') ''interface_tester'')
   \<and> get_fixture \<lparr>name = ''traefik-k8s'', url = ''https://example.org/traefik'',
                 test_setup = Some [(''location'', None), (''identifier'', Some ''my_tester'')],
                 branch = None\<rparr> (Path ''/ws/traefik-k8s'')
     = Inr (FixtureSpec (Path ''/ws/traefik-k8s/tests/interface/conftest.py'') ''my_tester'')
   \<and> get_fixture \<lparr>name = ''traefik-k8s'', url = ''https://example.org/traefik'',
                 test_setup = Some [(''location'', Some ''tests/conftest.py''),
                                    (''identifier'', Some ''my_tester'')],
                 branch = None\<rparr> (Path ''/ws/traefik-k8s'')
     = Inr (FixtureSpec (Path ''/ws/traefik-k8s/tests/conftest.py'') ''my_tester'')
   \<and> get_fixture \<lparr>name = ''traefik-k8s'', url = ''https://example.org/traefik'',
                 test_setup = None, branch = None\<rparr> (Path ''/ws/traefik-k8s'')
     = Inr (FixtureSpec (Path ''/ws/traefik-k8s/tests/interface/conftest.py'')
              ''interface_tester'')"
  using
    get_fixture_override_precedence
      [of "\<lparr>name = ''traefik-k8s'', url = ''https://example.org/traefik'',
            test_setup = Some [(''location'', Some ''tests/conftest.py''), (''identifier'', None)],
            branch = None\<rparr>"
          "[(''location'', Some ''tests/conftest.py''), (''identifier'', None)]"
          "''tests/conftest.py''" None "Path ''/ws/traefik-k8s''"]
    get_fixture_override_precedence
      [of "\<lparr>name = ''traefik-k8s'', url = ''https://example.org/traefik'',
            test_setup = Some [(''location'', None), (''identifier'', Some ''my_tester'')],
            branch = None\<rparr>"
          "[(''location'', None), (''identifier'', Some ''my_tester'')]"
          _ _ _ None "''my_tester''"]
    get_fixture_override_precedence
      [of "\<lparr>name = ''traefik-k8s'', url = ''https://example.org/traefik'',
            test_setup = Some [(''location'', Some ''tests/conftest.py''),
                               (''identifier'', Some ''my_tester'')],
            branch = None\<rparr>"
          "[(''location'', Some ''tests/conftest.py''), (''identifier'', Some ''my_tester'')]"
          "''tests/conftest.py''" _ _ _ "''my_tester''"]
    get_fixture_override_precedence
      [of "\<lparr>name = ''traefik-k8s'', url = ''https://example.org/traefik'',
            test_setup = None, branch = None\<rparr>"]
  by (simp add: Path_def joinpath_def)

text \<open>
  Where both entries are there, an entry that is None or the empty string leaves the
  corresponding default in place.
\<close>

lemma get_fixture_falsy_override:
  assumes "test_setup c = Some d"
    and "map_of d ''location'' = Some loc"
    and "map_of d ''identifier'' = Some ident"
  shows "\<exists>fx. get_fixture c p = Inr fx
           \<and> (loc = None \<or> loc = Some [] \<longrightarrow>
                path_of fx = joinpath p (Path ''tests/interface/conftest.py''))
           \<and> (ident = None \<or> ident = Some [] \<longrightarrow> id_of fx = ''interface_tester'')"
  using assms
  by (cases loc; cases ident)
     (auto simp: get_fixture_def subscript_def truthy_def FIXTURE_PATH_def
                 FIXTURE_IDENTIFIER_def Let_def)

lemma get_fixture_falsy_override_sample:
  "\<exists>fx. get_fixture \<lparr>name = ''traefik-k8s'', url = ''https://example.org/traefik'',
                 test_setup = Some [(''location'', Some []), (''identifier'', None)],
                 branch = None\<rparr> (Path ''/ws/traefik-k8s'') = Inr fx
        \<and> path_of fx = Path ''/ws/traefik-k8s/tests/interface/conftest.py''
        \<and> id_of fx = ''interface_tester''"
  using get_fixture_falsy_override
      [of "\<lparr>name = ''traefik-k8s'', url = ''https://example.org/traefik'',
            test_setup = Some [(''location'', Some []), (''identifier'', None)],
            branch = None\<rparr>"
          "[(''location'', Some []), (''identifier'', None)]" "Some []" None
          "Path ''/ws/traefik-k8s''"]
  by (simp add: Path_def joinpath_def)

text \<open>
  Claim C5 says that for every participant the resolver applies the location override and
  the identifier override independently: with only a location override the identifier
  is the default, with only an identifier override the path is the default. The code
  breaks this for a participant whose \<open>test_setup\<close> holds only the one override: the
  subscript of the other key raises \<open>KeyError\<close>, and nothing is resolved.
\<close>

theorem get_fixture_single_override_raises:
  "get_fixture \<lparr>name = ''traefik-k8s'', url = ''https://example.org/traefik'',
                 test_setup = Some [(''location'', Some ''tests/conftest.py'')],
                 branch = None\<rparr> (Path ''/ws/traefik-k8s'')
     = Inl (KeyError ''identifier'')
   \<and> get_fixture \<lparr>name = ''traefik-k8s'', url = ''https://example.org/traefik'',
                 test_setup = Some [(''identifier'', Some ''my_tester'')],
                 branch = None\<rparr> (Path ''/ws/traefik-k8s'')
     = Inl (KeyError ''location'')"
  by (simp add: get_fixture_def subscript_def truthy_def)

text \<open>
  Claim C10 says that for every participant whose \<open>test_setup\<close> is present and whose
  location (or identifier) entry is None or the empty string, the resolver takes that
  override as absent and resolves the corresponding default. The code breaks this when
  the mapping holds the false entry alone: the subscript of the other key raises
  \<open>KeyError\<close>, and no default is resolved.
\<close>

theorem get_fixture_single_falsy_entry_raises:
  "get_fixture \<lparr>name = ''traefik-k8s'', url = ''https://example.org/traefik'',
                 test_setup = Some [(''location'', Some [])],
                 branch = None\<rparr> (Path ''/ws/traefik-k8s'')
     = Inl (KeyError ''identifier'')
   \<and> get_fixture \<lparr>name = ''traefik-k8s'', url = ''https://example.org/traefik'',
                 test_setup = Some [(''identifier'', None)],
                 branch = None\<rparr> (Path ''/ws/traefik-k8s'')
     = Inl (KeyError ''location'')"
  by (simp add: get_fixture_def subscript_def truthy_def)

subsection \<open>The working directory around the two scoped calls\<close>

text \<open>
  On the path without an exception both functions end in the directory they started in
  (\<open>setup_venv_success_restores_cwd\<close>, \<open>run_test_success_restores_cwd\<close>, provided the
  final \<open>os.chdir\<close> itself succeeds, which is what returning normally means; a
  working directory is a location, with no \<open>..\<close> in it). On the
  path that raises \<open>SetupError\<close> or \<open>InterfaceTestError\<close> the process stays in the
  charm's directory (\<open>setup_venv_SetupError_leaves_cwd\<close>,
  \<open>run_test_InterfaceTestError_leaves_cwd\<close>).
\<close>

text \<open>
  Claim C1 says that after \<open>_setup_venv\<close> and \<open>_run_test_with_pytest\<close> the working
  directory equals the one before the call on every exit path, also when the call
  raises \<open>SetupError\<close> or \<open>InterfaceTestError\<close>. The code breaks this: started in
  \<open>/work\<close> on a cloned charm, with a virtual environment command that exits with
  status 1, \<open>_setup_venv\<close> raises \<open>SetupError\<close> and leaves the process in the
  charm's directory; with a pytest that exits with status 1,
  \<open>_run_test_with_pytest\<close> raises \<open>InterfaceTestError\<close> and leaves it there too.
\<close>

theorem cwd_not_restored_on_failure:
  "fst (setup_venv (sample_env [] (Exited 0) (Exited 1) (Exited 0)) traefik_path
          (sample_world\<lparr>fs := cloned_fs sample_fs\<rparr>))
     = Inl (SetupError ''venv setup failed'')
   \<and> cwd (snd (setup_venv (sample_env [] (Exited 0) (Exited 1) (Exited 0)) traefik_path
          (sample_world\<lparr>fs := cloned_fs sample_fs\<rparr>)))
     = [''tmp'', ''charm-relation-interfaces-tests'', ''traefik-k8s'']
   \<and> cwd (sample_world\<lparr>fs := cloned_fs sample_fs\<rparr>) = [''work'']
   \<and> fst (run_test_with_pytest (sample_env [] (Exited 0) (Exited 0) (Exited 1)) traefik_path
          (Path ''tests/interface/interface-test-ingress.py'')
          (sample_world\<lparr>fs := cloned_fs sample_fs\<rparr>))
     = Inl InterfaceTestError
   \<and> cwd (snd (run_test_with_pytest (sample_env [] (Exited 0) (Exited 0) (Exited 1)) traefik_path
          (Path ''tests/interface/interface-test-ingress.py'')
          (sample_world\<lparr>fs := cloned_fs sample_fs\<rparr>)))
     = [''tmp'', ''charm-relation-interfaces-tests'', ''traefik-k8s'']"
  by (simp add: sample_env_def sample_world_def sample_fs_def cloned_fs_def traefik_path_def
        setup_venv_def os_getcwd_def os_chdir_def resolve_def setup_venv_calls_def
        check_call_def subprocess_call_def returncode_def Path_def
        run_test_with_pytest_def Let_def)

subsection \<open>A failed clone\<close>

lemma subprocess_call_result:
  "subprocess_call env c w = (rc, w') \<Longrightarrow>
     \<exists>st f x. run_shell env c (cwd w) (fs w) (ext w) = (st, f, x) \<and> rc = returncode st
        \<and> w' = w\<lparr>fs := f, ext := x, trace := trace w @ [Exec c]\<rparr>"
  by (auto simp: subprocess_call_def split: prod.splits)

text \<open>
  The test on the return code is \<open>retcode > 0\<close>: a clone killed by a signal has a
  negative return code and is not taken as a failure.
\<close>

lemma clone_killed_by_signal_is_not_an_error:
  assumes "run_shell env (GitClone (git_clone_command c p)) (cwd w) (fs w) (ext w)
             = (Signaled n, f, x)"
  shows "fst (clone_charm_repo env c p w) = Inr ()"
  using assms by (simp add: clone_charm_repo_def subprocess_call_def returncode_def)

text \<open>
  A clone that exits with a status above zero raises the \<open>SetupError\<close> that names
  the participant, and it is the only subprocess started.
\<close>

lemma clone_failure_raises_SetupError:
  assumes "\<not> path_exists w (joinpath root (Path (name c)))"
    and "run_shell env (GitClone (git_clone_command c (joinpath root (Path (name c)))))
           (cwd w) (fs w) (ext w) = (Exited n, f, x)"
    and "n \<noteq> 0"
  shows "fst (prepare_repo env c interface version root w) =
           Inl (SetupError (''Failed to clone repo for '' @ name c
                              @ ''; check the charms.yaml config.''))
         \<and> trace (snd (prepare_repo env c interface version root w)) =
             trace w @ [Exec (GitClone (git_clone_command c (joinpath root (Path (name c)))))]
         \<and> filter is_build (trace (snd (prepare_repo env c interface version root w))) =
             filter is_build (trace w)"
  using assms
  by (simp add: prepare_repo_def clone_and_setup_def clone_charm_repo_def subprocess_call_def
        returncode_def Let_def is_build_def)

lemma clone_failure_raises_SetupError_sample:
  "fst (prepare_repo (sample_env [] (Exited 128) (Exited 0) (Exited 0)) traefik ''ingress'' 2
          default_root sample_world) =
     Inl (SetupError ''Failed to clone repo for traefik-k8s; check the charms.yaml config.'')
   \<and> trace (snd (prepare_repo (sample_env [] (Exited 128) (Exited 0) (Exited 0)) traefik
          ''ingress'' 2 default_root sample_world)) =
     [Exec (GitClone (''git clone --quiet --depth 1  ''
        @ ''https://github.com/canonical/traefik-k8s-operator ''
        @ ''/tmp/charm-relation-interfaces-tests/traefik-k8s''))]"
  using clone_failure_raises_SetupError
    [of sample_world default_root traefik "sample_env [] (Exited 128) (Exited 0) (Exited 0)"
        128 sample_fs "()" "''ingress''" 2]
  by (simp add: sample_env_def sample_world_def sample_fs_def traefik_def default_root_def
        path_exists_def node_at_def resolve_def Path_def joinpath_def git_clone_command_def str_path_def)

text \<open>
  Claim C6 says that whenever the clone subprocess ends with a non-zero status the
  provisioner raises a \<open>SetupError\<close> that names the participant and builds no
  environment. The code breaks this for the negative return codes: a clone killed by
  signal 9 returns -9, no \<open>SetupError\<close> is raised, and \<open>_setup_venv\<close> is
  entered. Where the killed clone has left the charm's tree, the environment is built and
  provisioning succeeds; where it has left nothing, \<open>os.chdir\<close> raises
  \<open>FileNotFoundError\<close>, which \<open>_test_charm\<close> does not catch.
\<close>

theorem signal_killed_clone_is_not_a_failure:
  "returncode (Signaled 9) = - 9
   \<and> fst (prepare_repo killed_clone_env traefik ''ingress'' 2 default_root sample_world)
     = Inr (traefik_path,
            Path (''/tmp/charm-relation-interfaces-tests/traefik-k8s/tests/interface/''
                    @ ''interface-test-ingress.py''))
   \<and> filter is_build
       (trace (snd (prepare_repo killed_clone_env traefik ''ingress'' 2 default_root
                      sample_world)))
     = [Exec (MkVenv ''python -m virtualenv ./.interface-venv'')]
   \<and> fst (test_charm (sample_env [] (Signaled 9) (Exited 0) (Exited 0)) traefik ''ingress'' 2
            ''provider'' sample_world)
     = Inl FileNotFoundError"
  by (simp add: killed_clone_env_def test_charm_def sample_eval)

subsection \<open>What provisioning adds to the trace\<close>

lemma setup_venv_calls_result:
  "setup_venv_calls env w = (r, w') \<Longrightarrow>
     cwd w' = cwd w \<and> prefix (trace w) (trace w')
     \<and> filter is_clone (trace w') = filter is_clone (trace w)
     \<and> filter is_build (trace w') = filter is_build (trace w) @ [Exec (MkVenv (mkvenv_command env))]
     \<and> filter is_rmtree (trace w') = filter is_rmtree (trace w)"
  by (auto simp: setup_venv_calls_def is_clone_def is_build_def is_rmtree_def
           split: prod.splits sum.splits dest!: check_call_result)

lemma os_chdir_is_dir:
  "is_dir w p \<Longrightarrow> \<exists>q. os_chdir p w = (Inr (), w\<lparr>cwd := q\<rparr>)"
  by (auto simp: is_dir_def node_at_def os_chdir_def split: sum.splits)

lemma os_chdir_not_dir:
  "\<not> is_dir w p \<Longrightarrow> \<exists>e. os_chdir p w = (Inl e, w)"
  by (auto simp: is_dir_def node_at_def os_chdir_def split: sum.splits option.splits node.splits)

lemma setup_venv_result:
  assumes "setup_venv env p w = (r, w')"
  shows "prefix (trace w) (trace w')
     \<and> filter is_clone (trace w') = filter is_clone (trace w)
     \<and> filter is_rmtree (trace w') = filter is_rmtree (trace w)
     \<and> (filter is_build (trace w') = filter is_build (trace w)
        \<or> filter is_build (trace w') = filter is_build (trace w) @ [Exec (MkVenv (mkvenv_command env))])
     \<and> (is_dir w p \<and> fs w (cwd w) = Some Dir \<longrightarrow>
          filter is_build (trace w') = filter is_build (trace w) @ [Exec (MkVenv (mkvenv_command env))])
     \<and> (fs w (cwd w) \<noteq> Some Dir \<longrightarrow> r = Inl FileNotFoundError \<and> w' = w)"
proof (cases "fs w (cwd w) = Some Dir")
  case False
  with assms show ?thesis by (simp add: setup_venv_def os_getcwd_def)
next
  case cwd_ok: True
  show ?thesis
  proof (cases "is_dir w p")
    case False
    from os_chdir_not_dir [OF this] obtain e where "os_chdir p w = (Inl e, w)" ..
    with assms cwd_ok False show ?thesis by (simp add: setup_venv_def os_getcwd_def)
  next
    case True
    from os_chdir_is_dir [OF this] obtain q where chd: "os_chdir p w = (Inr (), w\<lparr>cwd := q\<rparr>)" ..
    obtain r2 w2 where calls: "setup_venv_calls env (w\<lparr>cwd := q\<rparr>) = (r2, w2)"
      by (cases "setup_venv_calls env (w\<lparr>cwd := q\<rparr>)")
    note c = setup_venv_calls_result [OF calls]
    have "trace w' = trace w2"
      using chd calls assms cwd_ok
      by (auto simp: setup_venv_def os_getcwd_def split: sum.splits error.splits
               dest!: os_chdir_result)
    with c cwd_ok show ?thesis by simp
  qed
qed

text \<open>
  With the working directory gone, \<open>os.getcwd\<close> raises before the first command of
  the build.
\<close>

lemma build_needs_working_directory:
  assumes "fs w (cwd w) \<noteq> Some Dir"
  shows "setup_venv env p w = (Inl FileNotFoundError, w)"
  using assms by (simp add: setup_venv_def os_getcwd_def)

subsection \<open>Provisioning an existing directory\<close>

lemma open_write_result:
  "open_write p s w = (r, w') \<Longrightarrow> trace w' = trace w \<and> cwd w' = cwd w \<and> ext w' = ext w"
  by (auto simp: open_write_def split: sum.splits option.splits node.splits if_splits)

lemma generate_test_result:
  "generate_test i tp fid v w = (r, w') \<Longrightarrow> trace w' = trace w \<and> cwd w' = cwd w \<and> ext w' = ext w"
  by (auto simp: generate_test_def Let_def split: prod.splits sum.splits dest!: open_write_result)

lemma node_at_same:
  "cwd w = cwd w' \<Longrightarrow> fs w = fs w' \<Longrightarrow> node_at w p = node_at w' p"
  by (simp add: node_at_def resolve_def split: sum.splits)

lemma clone_and_setup_existing:
  "path_exists w p \<Longrightarrow> clone_and_setup env c p w = (Inr (), w)"
  by (simp add: clone_and_setup_def)

text \<open>What follows the conditional in \<open>_prepare_repo\<close> starts no subprocess.\<close>

lemma prepare_repo_after_setup:
  assumes "prepare_repo env c i v root w = (r, w')"
    and "clone_and_setup env c (joinpath root (Path (name c))) w = (r1, w1)"
  shows "trace w' = trace w1 \<and> cwd w' = cwd w1 \<and> ext w' = ext w1
         \<and> (\<forall>cp tp. r = Inr (cp, tp) \<longrightarrow> cp = joinpath root (Path (name c)))"
  using assms
  by (auto simp: prepare_repo_def Let_def
           split: prod.splits sum.splits error.splits if_splits
           dest!: generate_test_result)

lemma clone_charm_repo_result:
  "clone_charm_repo env c p w = (r, w') \<Longrightarrow>
     cwd w' = cwd w \<and> trace w' = trace w @ [Exec (GitClone (git_clone_command c p))]"
  by (auto simp: clone_charm_repo_def split: prod.splits if_splits dest!: subprocess_call_result)

lemma clone_and_setup_result:
  assumes "clone_and_setup env c p w = (r, w')"
  shows "prefix (trace w) (trace w')
         \<and> filter is_rmtree (trace w') = filter is_rmtree (trace w)"
proof (cases "path_exists w p")
  case True
  with assms show ?thesis by (simp add: clone_and_setup_def)
next
  case False
  obtain r1 w1 where cl: "clone_charm_repo env c p w = (r1, w1)"
    by (cases "clone_charm_repo env c p w")
  note c1 = clone_charm_repo_result [OF cl]
  show ?thesis
  proof (cases r1)
    case (Inl e)
    with False cl assms c1 show ?thesis
      by (auto simp: clone_and_setup_def is_rmtree_def)
  next
    case (Inr u)
    with False cl assms have "setup_venv env p w1 = (r, w')"
      by (simp add: clone_and_setup_def)
    from setup_venv_result [OF this] c1 show ?thesis
      by (auto simp: is_rmtree_def dest: append_prefixD)
  qed
qed


lemma prepare_repo_existing:
  assumes "path_exists w (joinpath root (Path (name c)))"
  shows "trace (snd (prepare_repo env c i v root w)) = trace w
         \<and> cwd (snd (prepare_repo env c i v root w)) = cwd w
         \<and> ext (snd (prepare_repo env c i v root w)) = ext w
         \<and> (\<forall>cp tp. fst (prepare_repo env c i v root w) = Inr (cp, tp)
               \<longrightarrow> cp = joinpath root (Path (name c)))"
proof -
  have "prepare_repo env c i v root w =
          (fst (prepare_repo env c i v root w), snd (prepare_repo env c i v root w))"
    by simp
  from prepare_repo_after_setup [OF this clone_and_setup_existing [OF assms]]
  show ?thesis by simp
qed


lemma prepare_repo_first_call:
  assumes absent: "\<not> path_exists w (joinpath root (Path (name c)))"
    and clone: "run_shell env (GitClone (git_clone_command c (joinpath root (Path (name c)))))
                  (cwd w) (fs w) (ext w) = (Exited 0, f, x)"
    and dir: "is_dir (w\<lparr>fs := f\<rparr>) (joinpath root (Path (name c)))"
    and wd: "f (cwd w) = Some Dir"
  shows "filter is_clone (trace (snd (prepare_repo env c i v root w))) =
           filter is_clone (trace w)
             @ [Exec (GitClone (git_clone_command c (joinpath root (Path (name c)))))]
         \<and> filter is_build (trace (snd (prepare_repo env c i v root w))) =
           filter is_build (trace w) @ [Exec (MkVenv (mkvenv_command env))]"
proof -
  let ?cp = "joinpath root (Path (name c))"
  let ?wc = "w\<lparr>fs := f, ext := x, trace := trace w @ [Exec (GitClone (git_clone_command c ?cp))]\<rparr>"
  have cl: "clone_charm_repo env c ?cp w = (Inr (), ?wc)"
    using clone by (simp add: clone_charm_repo_def subprocess_call_def returncode_def)
  obtain r1 w1 where sv: "setup_venv env ?cp ?wc = (r1, w1)"
    by (cases "setup_venv env ?cp ?wc")
  have "is_dir ?wc ?cp"
    using dir node_at_same [of ?wc "w\<lparr>fs := f\<rparr>" ?cp] by (simp add: is_dir_def)
  moreover have "fs ?wc (cwd ?wc) = Some Dir" using wd by simp
  ultimately
  have tr: "filter is_clone (trace w1) = filter is_clone (trace ?wc)"
    "filter is_build (trace w1) = filter is_build (trace ?wc) @ [Exec (MkVenv (mkvenv_command env))]"
    using setup_venv_result [OF sv] by simp_all
  have cs: "clone_and_setup env c ?cp w = (r1, w1)"
    using absent cl sv by (simp add: clone_and_setup_def)
  have "prepare_repo env c i v root w =
          (fst (prepare_repo env c i v root w), snd (prepare_repo env c i v root w))"
    by simp
  from prepare_repo_after_setup [OF this cs]
  have "trace (snd (prepare_repo env c i v root w)) = trace w1" by simp
  with tr show ?thesis by (simp add: is_clone_def is_build_def)
qed

text \<open>
  Claim C3 ends with: two calls with the same charm name, without a reset in between,
  perform exactly one clone and exactly one environment build. That fails when the first
  clone fails: the directory is still missing at the second call, which clones again, and
  no environment is built at all.
\<close>

theorem two_failed_clones:
  "length (filter is_clone (trace (snd
     (prepare_repo (sample_env [] (Exited 128) (Exited 0) (Exited 0)) traefik ''ingress'' 2
        default_root
        (snd (prepare_repo (sample_env [] (Exited 128) (Exited 0) (Exited 0)) traefik
                ''ingress'' 2 default_root sample_world)))))) = 2
   \<and> length (filter is_build (trace (snd
     (prepare_repo (sample_env [] (Exited 128) (Exited 0) (Exited 0)) traefik ''ingress'' 2
        default_root
        (snd (prepare_repo (sample_env [] (Exited 128) (Exited 0) (Exited 0)) traefik
                ''ingress'' 2 default_root sample_world)))))) = 0"
  by (simp add: sample_eval)

text \<open>
  Claim C3, as amended. When the charm's directory is already in the workspace,
  \<open>_prepare_repo\<close> starts no subprocess (no clone, no environment build), stays in its
  working directory and returns that directory as the charm path. Hence two calls with the
  same charm name, without a reset in between, perform exactly one clone and exactly one
  environment build when the directory is absent before the first call, the first
  call's clone exits with status 0 and leaves the charm's directory and the working
  directory of the process in place, and the charm's directory is still there when the
  second call starts.
\<close>

theorem provisioning_reuses_existing_directory:
  "(path_exists w (joinpath root (Path (name c))) \<longrightarrow>
      trace (snd (prepare_repo env c i v root w)) = trace w
      \<and> cwd (snd (prepare_repo env c i v root w)) = cwd w
      \<and> (\<forall>cp tp. fst (prepare_repo env c i v root w) = Inr (cp, tp)
            \<longrightarrow> cp = joinpath root (Path (name c))))
   \<and> (\<not> path_exists w (joinpath root (Path (name c)))
      \<and> run_shell env (GitClone (git_clone_command c (joinpath root (Path (name c)))))
            (cwd w) (fs w) (ext w) = (Exited 0, f, x)
      \<and> is_dir (w\<lparr>fs := f\<rparr>) (joinpath root (Path (name c)))
      \<and> f (cwd w) = Some Dir
      \<and> path_exists (snd (prepare_repo env c i v root w)) (joinpath root (Path (name c)))
      \<and> name c' = name c
      \<longrightarrow>
      length (filter is_clone
        (trace (snd (prepare_repo env c' i' v' root (snd (prepare_repo env c i v root w))))))
        = length (filter is_clone (trace w)) + 1
      \<and> length (filter is_build
        (trace (snd (prepare_repo env c' i' v' root (snd (prepare_repo env c i v root w))))))
        = length (filter is_build (trace w)) + 1)"
proof (rule conjI; rule impI)
  assume "path_exists w (joinpath root (Path (name c)))"
  from prepare_repo_existing [OF this, of env i v]
  show "trace (snd (prepare_repo env c i v root w)) = trace w
      \<and> cwd (snd (prepare_repo env c i v root w)) = cwd w
      \<and> (\<forall>cp tp. fst (prepare_repo env c i v root w) = Inr (cp, tp)
            \<longrightarrow> cp = joinpath root (Path (name c)))"
    by simp
next
  let ?w1 = "snd (prepare_repo env c i v root w)"
  assume h: "\<not> path_exists w (joinpath root (Path (name c)))
      \<and> run_shell env (GitClone (git_clone_command c (joinpath root (Path (name c)))))
            (cwd w) (fs w) (ext w) = (Exited 0, f, x)
      \<and> is_dir (w\<lparr>fs := f\<rparr>) (joinpath root (Path (name c)))
      \<and> f (cwd w) = Some Dir
      \<and> path_exists ?w1 (joinpath root (Path (name c)))
      \<and> name c' = name c"
  then have first: "filter is_clone (trace ?w1) =
           filter is_clone (trace w)
             @ [Exec (GitClone (git_clone_command c (joinpath root (Path (name c)))))]"
    "filter is_build (trace ?w1) = filter is_build (trace w) @ [Exec (MkVenv (mkvenv_command env))]"
    using prepare_repo_first_call [of w root c env f x i v] by simp_all
  from h have "path_exists ?w1 (joinpath root (Path (name c')))" by simp
  from prepare_repo_existing [OF this, of env i' v']
  have "trace (snd (prepare_repo env c' i' v' root ?w1)) = trace ?w1" by simp
  with first
  show "length (filter is_clone (trace (snd (prepare_repo env c' i' v' root ?w1))))
        = length (filter is_clone (trace w)) + 1
      \<and> length (filter is_build (trace (snd (prepare_repo env c' i' v' root ?w1))))
        = length (filter is_build (trace w)) + 1"
    by simp
qed

lemma sample_first_call_leaves_directory:
  "path_exists
     (snd (prepare_repo (sample_env [] (Exited 0) (Exited 0) (Exited 0)) traefik ''ingress'' 2
             default_root sample_world))
     (joinpath default_root (Path (name traefik)))"
  by (simp add: sample_eval)

theorem provisioning_reuses_existing_directory_witness:
  "trace (snd (prepare_repo (sample_env [] (Exited 0) (Exited 0) (Exited 0)) traefik ''ingress'' 2
                 default_root (sample_world\<lparr>fs := cloned_fs sample_fs\<rparr>))) = []
   \<and> cwd (snd (prepare_repo (sample_env [] (Exited 0) (Exited 0) (Exited 0)) traefik ''ingress'' 2
                 default_root (sample_world\<lparr>fs := cloned_fs sample_fs\<rparr>))) = [''work'']
   \<and> length (filter is_clone (trace (snd
       (prepare_repo (sample_env [] (Exited 0) (Exited 0) (Exited 0)) traefik ''ingress'' 1
          default_root
          (snd (prepare_repo (sample_env [] (Exited 0) (Exited 0) (Exited 0)) traefik
                  ''ingress'' 2 default_root sample_world)))))) = 1
   \<and> length (filter is_build (trace (snd
       (prepare_repo (sample_env [] (Exited 0) (Exited 0) (Exited 0)) traefik ''ingress'' 1
          default_root
          (snd (prepare_repo (sample_env [] (Exited 0) (Exited 0) (Exited 0)) traefik
                  ''ingress'' 2 default_root sample_world)))))) = 1"
proof -
  let ?env = "sample_env [] (Exited 0) (Exited 0) (Exited 0)"
  have a: "path_exists (sample_world\<lparr>fs := cloned_fs sample_fs\<rparr>)
             (joinpath default_root (Path (name traefik)))"
    by (simp add: sample_eval)
  have b: "\<not> path_exists sample_world (joinpath default_root (Path (name traefik)))"
    by (simp add: sample_eval)
  have c: "run_shell ?env
             (GitClone (git_clone_command traefik (joinpath default_root (Path (name traefik)))))
             (cwd sample_world) (fs sample_world) (ext sample_world)
           = (Exited 0, cloned_fs sample_fs, ())"
    by (simp add: sample_env_def sample_world_def)
  have d: "is_dir (sample_world\<lparr>fs := cloned_fs sample_fs\<rparr>)
             (joinpath default_root (Path (name traefik)))"
    by (simp add: sample_eval)
  have e: "cloned_fs sample_fs (cwd sample_world) = Some Dir"
    by (simp add: sample_eval)
  from a provisioning_reuses_existing_directory
         [of "sample_world\<lparr>fs := cloned_fs sample_fs\<rparr>" default_root traefik ?env "''ingress''" 2]
  have one: "trace (snd (prepare_repo ?env traefik ''ingress'' 2 default_root
                 (sample_world\<lparr>fs := cloned_fs sample_fs\<rparr>))) = []
     \<and> cwd (snd (prepare_repo ?env traefik ''ingress'' 2 default_root
                 (sample_world\<lparr>fs := cloned_fs sample_fs\<rparr>))) = [''work'']"
    by (simp add: sample_world_def)
  from b c d e sample_first_call_leaves_directory
       provisioning_reuses_existing_directory
         [of sample_world default_root traefik ?env "''ingress''" 2 "cloned_fs sample_fs" "()"
             traefik "''ingress''" 1]
  have two: "length (filter is_clone (trace (snd
       (prepare_repo ?env traefik ''ingress'' 1 default_root
          (snd (prepare_repo ?env traefik ''ingress'' 2 default_root sample_world)))))) = 1
   \<and> length (filter is_build (trace (snd
       (prepare_repo ?env traefik ''ingress'' 1 default_root
          (snd (prepare_repo ?env traefik ''ingress'' 2 default_root sample_world)))))) = 1"
    by (simp add: sample_world_def)
  from one two show ?thesis by simp
qed

subsection \<open>The directory after the first call\<close>

lemma walk_upd_file:
  assumes "f a \<noteq> Some Dir"
  shows "walk f at ps = Inr b \<Longrightarrow> walk (f(a \<mapsto> File s)) at ps = Inr b"
proof (induction ps arbitrary: at)
  case Nil
  then show ?case by simp
next
  case (Cons c cs)
  from Cons.prems have d: "f at = Some Dir"
    by (auto split: option.splits node.splits)
  with assms have "at \<noteq> a" by auto
  with d Cons.prems Cons.IH show ?case by simp
qed

lemma reachable_upd_file:
  assumes "f a \<noteq> Some Dir" and "reachable f ps"
  shows "reachable (f(a \<mapsto> File s)) ps"
proof -
  from assms(2) obtain b where b: "walk f [] ps = Inr b" "f b \<noteq> None"
    by (auto simp: reachable_def split: sum.splits)
  from walk_upd_file [OF assms(1) b(1)] have "walk (f(a \<mapsto> File s)) [] ps = Inr b" .
  moreover from b(2) have "(f(a \<mapsto> File s)) b \<noteq> None" by simp
  ultimately show ?thesis by (simp add: reachable_def)
qed

lemma open_write_keeps:
  "open_write p s w = (r, w') \<Longrightarrow> reachable (fs w) ps \<Longrightarrow> reachable (fs w') ps"
  by (auto simp: open_write_def split: sum.splits option.splits node.splits if_splits
           intro!: reachable_upd_file)

lemma generate_test_keeps:
  "generate_test i tp fid v w = (r, w') \<Longrightarrow> reachable (fs w) ps \<Longrightarrow> reachable (fs w') ps"
  by (auto simp: generate_test_def Let_def split: prod.splits sum.splits dest: open_write_keeps)

lemma check_call_keeps:
  assumes keep: "\<And>cmd cw g y. (\<forall>s. cmd \<noteq> GitClone s) \<Longrightarrow> reachable g ps \<Longrightarrow>
                   reachable (fst (snd (run_shell env cmd cw g y))) ps"
    and "\<forall>s. c \<noteq> GitClone s" and "check_call env c w = (r, w')" and "reachable (fs w) ps"
  shows "reachable (fs w') ps"
proof -
  from assms(3) have "fs w' = fst (snd (run_shell env c (cwd w) (fs w) (ext w)))"
    by (auto simp: check_call_def subprocess_call_def split: prod.splits if_splits)
  with keep [OF assms(2,4)] show ?thesis by simp
qed

lemma setup_venv_calls_keeps:
  assumes keep: "\<And>cmd cw g y. (\<forall>s. cmd \<noteq> GitClone s) \<Longrightarrow> reachable g ps \<Longrightarrow>
                   reachable (fst (snd (run_shell env cmd cw g y))) ps"
    and run: "setup_venv_calls env w = (r, w')" and "reachable (fs w) ps"
  shows "reachable (fs w') ps"
proof -
  obtain r1 w1 where a: "check_call env (MkVenv (mkvenv_command env)) w = (r1, w1)"
    by (cases "check_call env (MkVenv (mkvenv_command env)) w")
  have k1: "reachable (fs w1) ps"
    by (rule check_call_keeps [OF keep _ a assms(3)]) simp_all
  obtain r2 w2 where b: "check_call env PipInstallTester w1 = (r2, w2)"
    by (cases "check_call env PipInstallTester w1")
  have k2: "reachable (fs w2) ps"
    by (rule check_call_keeps [OF keep _ b k1]) simp_all
  obtain r3 w3 where c: "check_call env PipInstallRequirements w2 = (r3, w3)"
    by (cases "check_call env PipInstallRequirements w2")
  have k3: "reachable (fs w3) ps"
    by (rule check_call_keeps [OF keep _ c k2]) simp_all
  from run a b c have "w' = w1 \<or> w' = w2 \<or> w' = w3"
    by (auto simp: setup_venv_calls_def split: sum.splits)
  with k1 k2 k3 show ?thesis by auto
qed

lemma setup_venv_keeps:
  assumes keep: "\<And>cmd cw g y. (\<forall>s. cmd \<noteq> GitClone s) \<Longrightarrow> reachable g ps \<Longrightarrow>
                   reachable (fst (snd (run_shell env cmd cw g y))) ps"
    and run: "setup_venv env p w = (r, w')" and r0: "reachable (fs w) ps"
  shows "reachable (fs w') ps"
proof (cases "os_getcwd w")
  case (Inl e)
  with run r0 show ?thesis by (simp add: setup_venv_def)
next
  case (Inr wd)
  obtain r1 w1 where chd: "os_chdir p w = (r1, w1)" by (cases "os_chdir p w")
  from os_chdir_result [OF chd] r0 have k1: "reachable (fs w1) ps" by simp
  show ?thesis
  proof (cases r1)
    case (Inl e)
    with run Inr chd k1 show ?thesis by (simp add: setup_venv_def)
  next
    case ok: (Inr u)
    obtain r2 w2 where calls: "setup_venv_calls env w1 = (r2, w2)"
      by (cases "setup_venv_calls env w1")
    have k2: "reachable (fs w2) ps"
      by (rule setup_venv_calls_keeps [OF keep calls k1])
    show ?thesis
    proof (cases r2)
      case (Inl e)
      with run Inr chd ok calls k2 show ?thesis
        by (auto simp: setup_venv_def split: error.splits)
    next
      case fine: (Inr u2)
      with run Inr chd ok calls have "os_chdir wd w2 = (r, w')"
        by (simp add: setup_venv_def)
      from os_chdir_result [OF this] k2 show ?thesis by simp
    qed
  qed
qed


lemma path_exists_absolute:
  "is_absolute p \<Longrightarrow> path_exists w p = reachable (fs w) (parts p)"
  by (simp add: path_exists_def node_at_def resolve_def reachable_def split: sum.splits)

lemma prepare_repo_after_setup_keeps:
  assumes "prepare_repo env c i v root w = (r, w')"
    and "clone_and_setup env c (joinpath root (Path (name c))) w = (r1, w1)"
    and "reachable (fs w1) ps"
  shows "reachable (fs w') ps"
  using assms
  by (auto simp: prepare_repo_def Let_def
           split: prod.splits sum.splits error.splits if_splits
           dest: generate_test_keeps)

text \<open>
  That the charm's directory is still there after the first call follows from what the
  commands do: the clone leaves it, and no later command of the build removes it.
\<close>

lemma first_call_keeps_directory:
  assumes abs: "is_absolute (joinpath root (Path (name c)))"
    and absent: "\<not> path_exists w (joinpath root (Path (name c)))"
    and clone: "run_shell env (GitClone (git_clone_command c (joinpath root (Path (name c)))))
                  (cwd w) (fs w) (ext w) = (Exited 0, f, x)"
    and there: "reachable f (parts (joinpath root (Path (name c))))"
    and keep: "\<And>cmd cw g y. (\<forall>s. cmd \<noteq> GitClone s) \<Longrightarrow>
                 reachable g (parts (joinpath root (Path (name c)))) \<Longrightarrow>
                 reachable (fst (snd (run_shell env cmd cw g y)))
                   (parts (joinpath root (Path (name c))))"
  shows "path_exists (snd (prepare_repo env c i v root w)) (joinpath root (Path (name c)))"
proof -
  let ?cp = "joinpath root (Path (name c))"
  let ?wc = "w\<lparr>fs := f, ext := x, trace := trace w @ [Exec (GitClone (git_clone_command c ?cp))]\<rparr>"
  have cl: "clone_charm_repo env c ?cp w = (Inr (), ?wc)"
    using clone by (simp add: clone_charm_repo_def subprocess_call_def returncode_def)
  obtain r1 w1 where sv: "setup_venv env ?cp ?wc = (r1, w1)"
    by (cases "setup_venv env ?cp ?wc")
  from there have "reachable (fs ?wc) (parts ?cp)" by simp
  from setup_venv_keeps [OF keep sv this] have k1: "reachable (fs w1) (parts ?cp)" .
  have cs: "clone_and_setup env c ?cp w = (r1, w1)"
    using absent cl sv by (simp add: clone_and_setup_def)
  have "prepare_repo env c i v root w =
          (fst (prepare_repo env c i v root w), snd (prepare_repo env c i v root w))"
    by simp
  from prepare_repo_after_setup_keeps [OF this cs k1]
  show ?thesis by (simp add: path_exists_absolute [OF abs])
qed

subsection \<open>The roles of a version\<close>








subsection \<open>A version label that is not a number\<close>









end
